theory Spec2Isabelle
  imports Main "HOL-Library.Multiset"
begin

section \<open>Values of the request body\<close>

text \<open>
  A Python float: a finite one is \<open>m \<times> 2\<^sup>e\<close>, written \<open>Finite m e digits\<close>, where
  \<open>digits\<close> is the text \<^verbatim>\<open>repr\<close> prints for it (the shortest decimal that reads back
  as the same float; the model carries it and does not compute it). JSON text gives an
  infinity for a number too large for a float (\<^verbatim>\<open>1e999\<close>) and for \<^verbatim>\<open>Infinity\<close>, and
  nan for \<^verbatim>\<open>NaN\<close>.
\<close>

datatype pyfloat = Finite int int string | PosInf | NegInf | NaN

text \<open>
  \<^verbatim>\<open>request.get_json()\<close> gives the handler a Python value built from JSON text: None, a
  bool, an int, a float, a str, a list or a dict. A dict is kept as an association list
  in which the first binding of a key is the dict's entry. A character is a code point
  below 256.
\<close>

datatype json =
    JNull
  | JBool bool
  | JInt int
  | JFloat pyfloat
  | JStr string
  | JArr "json list"
  | JObj "(string \<times> json) list"

datatype exn =
    TypeError
  | ValueError
  | OverflowError
  | KeyError
  | AttributeError
  | DriverError string
  | OtherError string

section \<open>The Python built-ins the handlers call\<close>

text \<open>\<^verbatim>\<open>sep.join(parts)\<close>\<close>

fun join :: "string \<Rightarrow> string list \<Rightarrow> string" where
  "join sep [] = []"
| "join sep [x] = x"
| "join sep (x # y # ys) = x @ sep @ join sep (y # ys)"

text \<open>
  \<^verbatim>\<open>s.split(c)\<close> for a one-character separator: the pieces between the occurrences of
  \<open>c\<close>, so the empty string gives one empty piece. \<open>acc\<close> holds the current piece,
  reversed.
\<close>

fun split_acc :: "char \<Rightarrow> string \<Rightarrow> string \<Rightarrow> string list" where
  "split_acc c acc [] = [rev acc]"
| "split_acc c acc (x # xs) =
     (if x = c then rev acc # split_acc c [] xs else split_acc c (x # acc) xs)"

definition split :: "char \<Rightarrow> string \<Rightarrow> string list" where
  "split c s = split_acc c [] s"

text \<open>Truth value of a value in a condition (\<^verbatim>\<open>if x\<close>).\<close>

fun truthy :: "json \<Rightarrow> bool" where
  "truthy JNull = False"
| "truthy (JBool b) = b"
| "truthy (JInt i) = (i \<noteq> 0)"
| "truthy (JFloat (Finite m e digits)) = (m \<noteq> 0)"
| "truthy (JFloat x) = True"
| "truthy (JStr s) = (s \<noteq> [])"
| "truthy (JArr xs) = (xs \<noteq> [])"
| "truthy (JObj kvs) = (kvs \<noteq> [])"

text \<open>Decimal digits of a number, as \<^verbatim>\<open>str\<close> prints an int.\<close>

definition digit_char :: "nat \<Rightarrow> char" where
  "digit_char n = ''0123456789abcdef'' ! n"

fun show_nat :: "nat \<Rightarrow> string" where
  "show_nat n = (if n < 10 then [digit_char n] else show_nat (n div 10) @ [digit_char (n mod 10)])"

declare show_nat.simps [simp del]

definition show_int :: "int \<Rightarrow> string" where
  "show_int i = (if i < 0 then CHR ''-'' # show_nat (nat (- i)) else show_nat (nat i))"

text \<open>
  \<^verbatim>\<open>repr\<close> of a str: double quotes when the text has a single quote and no double
  quote, single quotes otherwise; the quote and the backslash escaped, tab, newline and
  carriage return by letter, every other non-printable code point as \<^verbatim>\<open>\xhh\<close>.
\<close>

definition repr_char :: "char \<Rightarrow> char \<Rightarrow> string" where
  "repr_char q c =
     (let n = (of_char c :: nat) in
      if c = q \<or> c = CHR 0x5C then [CHR 0x5C, c]
      else if n = 9 then [CHR 0x5C, CHR ''t'']
      else if n = 10 then [CHR 0x5C, CHR ''n'']
      else if n = 13 then [CHR 0x5C, CHR ''r'']
      else if n < 32 \<or> n = 127 \<or> (128 \<le> n \<and> n \<le> 160) \<or> n = 173
        then [CHR 0x5C, CHR ''x'', digit_char (n div 16), digit_char (n mod 16)]
      else [c])"

definition repr_str :: "string \<Rightarrow> string" where
  "repr_str s =
     (let q = (if CHR 0x27 \<in> set s \<and> CHR 0x22 \<notin> set s
               then CHR 0x22 else CHR 0x27)
      in q # concat (map (repr_char q) s) @ [q])"

text \<open>\<^verbatim>\<open>repr\<close> of a float.\<close>

fun float_repr :: "pyfloat \<Rightarrow> string" where
  "float_repr (Finite m e digits) = digits"
| "float_repr PosInf = ''inf''"
| "float_repr NegInf = ''-inf''"
| "float_repr NaN = ''nan''"

fun py_repr :: "json \<Rightarrow> string"
  and py_repr_items :: "json list \<Rightarrow> string list"
  and py_repr_pairs :: "(string \<times> json) list \<Rightarrow> string list" where
  "py_repr JNull = ''None''"
| "py_repr (JBool b) = (if b then ''True'' else ''False'')"
| "py_repr (JInt i) = show_int i"
| "py_repr (JFloat x) = float_repr x"
| "py_repr (JStr s) = repr_str s"
| "py_repr (JArr xs) = ''['' @ join '', '' (py_repr_items xs) @ '']''"
| "py_repr (JObj kvs) = ''{'' @ join '', '' (py_repr_pairs kvs) @ ''}''"
| "py_repr_items [] = []"
| "py_repr_items (x # xs) = py_repr x # py_repr_items xs"
| "py_repr_pairs [] = []"
| "py_repr_pairs ((k, v) # kvs) = (repr_str k @ '': '' @ py_repr v) # py_repr_pairs kvs"

text \<open>\<^verbatim>\<open>str(x)\<close>: a str is itself, every other value prints as its \<^verbatim>\<open>repr\<close>.\<close>

fun py_str :: "json \<Rightarrow> string" where
  "py_str (JStr s) = s"
| "py_str v = py_repr v"

text \<open>
  Iteration, as \<^verbatim>\<open>map(str, x)\<close> needs it: a list gives its elements, a str its
  characters, a dict its keys; None, a bool, an int and a float are not iterable.
\<close>

fun iter :: "json \<Rightarrow> exn + json list" where
  "iter (JArr xs) = Inr xs"
| "iter (JStr s) = Inr (map (\<lambda>c. JStr [c]) s)"
| "iter (JObj kvs) = Inr (map (\<lambda>kv. JStr (fst kv)) kvs)"
| "iter v = Inl TypeError"

text \<open>
  \<^verbatim>\<open>int(x)\<close>. A float is cut towards zero; an infinity is an OverflowError and nan a
  ValueError. A str is read after skipping white space at both ends (tab to carriage
  return, the space, and the spaces beyond ASCII, which are the code points 133 and
  160): an optional sign, then decimal digits, single underscores allowed between
  digits; anything else is a ValueError. None, a list and a dict are a TypeError. (The
  interpreter's optional limit on the number of digits is not modelled.)
\<close>

definition float_trunc :: "int \<Rightarrow> int \<Rightarrow> int" where
  "float_trunc m e =
     (if 0 \<le> e then m * 2 ^ nat e
      else if 0 \<le> m then m div 2 ^ nat (- e)
      else - ((- m) div 2 ^ nat (- e)))"

fun int_of_float :: "pyfloat \<Rightarrow> exn + int" where
  "int_of_float (Finite m e digits) = Inr (float_trunc m e)"
| "int_of_float PosInf = Inl OverflowError"
| "int_of_float NegInf = Inl OverflowError"
| "int_of_float NaN = Inl ValueError"

definition is_space :: "char \<Rightarrow> bool" where
  "is_space c =
     (let n = (of_char c :: nat)
      in (9 \<le> n \<and> n \<le> 13) \<or> n = 32 \<or> n = 133 \<or> n = 160)"

definition strip :: "string \<Rightarrow> string" where
  "strip s = rev (dropWhile is_space (rev (dropWhile is_space s)))"

definition digit_of :: "char \<Rightarrow> nat option" where
  "digit_of c =
     (let n = (of_char c :: nat) in if 48 \<le> n \<and> n \<le> 57 then Some (n - 48) else None)"

fun digits_value :: "nat \<Rightarrow> string \<Rightarrow> nat option" where
  "digits_value acc [] = Some acc"
| "digits_value acc (c # cs) =
     (if c = CHR ''_''
      then (case cs of
              [] \<Rightarrow> None
            | d # ds \<Rightarrow>
                (case digit_of d of
                   None \<Rightarrow> None
                 | Some k \<Rightarrow> digits_value (10 * acc + k) ds))
      else (case digit_of c of
              None \<Rightarrow> None
            | Some k \<Rightarrow> digits_value (10 * acc + k) cs))"

definition unsigned_literal :: "string \<Rightarrow> nat option" where
  "unsigned_literal s =
     (case s of
        [] \<Rightarrow> None
      | c # cs \<Rightarrow> (case digit_of c of None \<Rightarrow> None | Some k \<Rightarrow> digits_value k cs))"

definition int_of_str :: "string \<Rightarrow> exn + int" where
  "int_of_str s =
     (case strip s of
        [] \<Rightarrow> Inl ValueError
      | c # cs \<Rightarrow>
          if c = CHR ''-''
          then (case unsigned_literal cs of None \<Rightarrow> Inl ValueError | Some n \<Rightarrow> Inr (- int n))
          else if c = CHR ''+''
          then (case unsigned_literal cs of None \<Rightarrow> Inl ValueError | Some n \<Rightarrow> Inr (int n))
          else (case unsigned_literal (c # cs) of
                  None \<Rightarrow> Inl ValueError
                | Some n \<Rightarrow> Inr (int n)))"

fun py_int :: "json \<Rightarrow> exn + int" where
  "py_int (JInt i) = Inr i"
| "py_int (JBool b) = Inr (if b then 1 else 0)"
| "py_int (JFloat x) = int_of_float x"
| "py_int (JStr s) = int_of_str s"
| "py_int v = Inl TypeError"

text \<open>
  \<^verbatim>\<open>field in data\<close>: a key of a dict, an element of a list, a substring of a str;
  a TypeError on None, a bool, an int or a float.
\<close>

fun starts_with :: "string \<Rightarrow> string \<Rightarrow> bool" where
  "starts_with [] s = True"
| "starts_with (p # ps) [] = False"
| "starts_with (p # ps) (c # cs) = (p = c \<and> starts_with ps cs)"

fun substring :: "string \<Rightarrow> string \<Rightarrow> bool" where
  "substring p [] = (p = [])"
| "substring p (c # cs) = (starts_with p (c # cs) \<or> substring p cs)"

fun contains :: "json \<Rightarrow> string \<Rightarrow> exn + bool" where
  "contains (JObj kvs) field = Inr (field \<in> set (map fst kvs))"
| "contains (JArr xs) field = Inr (JStr field \<in> set xs)"
| "contains (JStr s) field = Inr (substring field s)"
| "contains v field = Inl TypeError"

text \<open>
  \<^verbatim>\<open>data[key]\<close> with a str key: the entry of a dict (KeyError when absent); a
  TypeError on every other value.
\<close>

fun subscript :: "json \<Rightarrow> string \<Rightarrow> exn + json" where
  "subscript (JObj kvs) key = (case map_of kvs key of None \<Rightarrow> Inl KeyError | Some v \<Rightarrow> Inr v)"
| "subscript v key = Inl TypeError"

section \<open>The store and its driver\<close>

text \<open>
  A row of table \<^verbatim>\<open>bookings\<close>, column by column as \<^verbatim>\<open>CREATE TABLE\<close> declares it.
  Only \<^verbatim>\<open>selected_seats\<close> may be NULL. \<^verbatim>\<open>created_at\<close> is a TIMESTAMP: whole seconds.
\<close>

record row =
  col_id :: int
  col_name :: string
  col_phone_no :: string
  col_from_station :: string
  col_to_station :: string
  col_travel_date :: string
  col_travel_time :: string
  col_no_of_passengers :: int
  col_class :: string
  col_selected_seats :: "string option"
  col_created_at :: nat

text \<open>The tuple \<^verbatim>\<open>values\<close> that \<^verbatim>\<open>add_booking\<close> hands to \<^verbatim>\<open>cursor.execute\<close>.\<close>

record booking_values =
  val_name :: json
  val_phone_no :: json
  val_from_station :: json
  val_to_station :: json
  val_travel_date :: json
  val_travel_time :: json
  val_no_of_passengers :: int
  val_class :: json
  val_selected_seats :: string

datatype statement =
    Create_table_if_not_exists
  | Insert_booking booking_values
  | Select_order_by_created_at_desc
  | Commit

text \<open>
  Why the driver raises \<^verbatim>\<open>mysql.connector.Error\<close>. The text of \<^verbatim>\<open>str(err)\<close> is the
  driver's and the server's, so the store carries it as \<open>wording\<close>.
\<close>

datatype failure =
    Connect_failed
  | Connection_not_available
  | Parameter_not_convertible
  | No_such_table
  | Column_cannot_be_null string
  | Refused statement

text \<open>What \<^verbatim>\<open>mysql.connector.connect\<close> does: succeed, raise a driver error, or raise
  something that is not a driver error.\<close>

datatype link = Up | Down | Broken string

datatype log_line =
    Received_booking_data json
  | Database_connection_failed string
  | Table_created_or_exists
  | Error_creating_table string
  | Database_Error string

datatype event =
    Connecting
  | Connection_opened
  | Cursor_opened
  | Executing statement
  | Committing
  | Cursor_closed
  | Connection_closed
  | Printed log_line

text \<open>
  The world a request runs in.
  \<^item> \<open>link\<close>: the outcome of connecting; \<open>live\<close>: whether an established connection is
    usable (\<^verbatim>\<open>is_connected()\<close>).
  \<^item> \<open>refuses\<close>: statements the server turns down for reasons outside the program
    (privileges, column width or range under the server's mode, a failing commit).
  \<^item> \<open>tbl\<close>: the rows of \<^verbatim>\<open>bookings\<close> in insertion order, \<open>None\<close> while the table
    does not exist; \<open>auto_increment\<close>: the next id; \<open>now\<close>: CURRENT_TIMESTAMP.
  \<^item> \<open>tie_break\<close>: how the server orders two rows of equal \<^verbatim>\<open>created_at\<close>.
  \<^item> \<open>double_text\<close>: the text the server stores when a text column receives a float.
  \<^item> \<open>trace\<close>: what the process did to the driver and printed, oldest first.
  Closing a cursor or a connection never raises in this model.
\<close>

record store =
  link :: link
  live :: bool
  refuses :: "statement \<Rightarrow> bool"
  wording :: "failure \<Rightarrow> string"
  tbl :: "row list option"
  auto_increment :: int
  now :: nat
  tie_break :: "row \<Rightarrow> row \<Rightarrow> bool"
  double_text :: "pyfloat \<Rightarrow> string"
  trace :: "event list"

definition emit :: "event \<Rightarrow> store \<Rightarrow> store" where
  "emit e s = s\<lparr>trace := trace s @ [e]\<rparr>"

definition driver_error :: "store \<Rightarrow> failure \<Rightarrow> exn" where
  "driver_error s f = DriverError (wording s f)"

datatype connection = Connection

text \<open>\<^verbatim>\<open>conn.cursor()\<close> raises a driver error when the connection is not available.\<close>

definition cursor :: "store \<Rightarrow> (exn + unit) \<times> store" where
  "cursor s =
     (if live s then (Inr (), emit Cursor_opened s)
      else (Inl (driver_error s Connection_not_available), s))"

text \<open>\<^verbatim>\<open>conn.commit()\<close>\<close>

definition commit :: "store \<Rightarrow> (exn + unit) \<times> store" where
  "commit s =
     (let s1 = emit Committing s
      in if refuses s Commit then (Inl (driver_error s (Refused Commit)), s1) else (Inr (), s1))"

text \<open>
  The driver turns each parameter into an SQL value: None is NULL, a bool is 1 or 0, an
  int, a finite float and a str are themselves; a list, a dict, an infinity and nan
  cannot be sent. A text column stores an integer as its decimal digits and a float as
  the server writes it.
\<close>

datatype sqlval = SqlNull | SqlInt int | SqlDouble pyfloat | SqlStr string

fun to_mysql :: "json \<Rightarrow> sqlval option" where
  "to_mysql JNull = Some SqlNull"
| "to_mysql (JBool b) = Some (SqlInt (if b then 1 else 0))"
| "to_mysql (JInt i) = Some (SqlInt i)"
| "to_mysql (JFloat (Finite m e digits)) = Some (SqlDouble (Finite m e digits))"
| "to_mysql (JFloat x) = None"
| "to_mysql (JStr s) = Some (SqlStr s)"
| "to_mysql (JArr xs) = None"
| "to_mysql (JObj kvs) = None"

fun as_text :: "store \<Rightarrow> sqlval \<Rightarrow> string option" where
  "as_text s SqlNull = None"
| "as_text s (SqlInt i) = Some (show_int i)"
| "as_text s (SqlDouble x) = Some (double_text s x)"
| "as_text s (SqlStr t) = Some t"

text \<open>
  The seven text parameters of the INSERT, with their columns, in column order: the
  first parameter the driver cannot convert, and the first NULL aimed at a NOT NULL
  column.
\<close>

definition text_params :: "booking_values \<Rightarrow> (string \<times> json) list" where
  "text_params v =
     [(''name'', val_name v), (''phone_no'', val_phone_no v),
      (''from_station'', val_from_station v), (''to_station'', val_to_station v),
      (''travel_date'', val_travel_date v), (''travel_time'', val_travel_time v),
      (''class'', val_class v)]"

definition column_text :: "store \<Rightarrow> json \<Rightarrow> string" where
  "column_text s v =
     (case to_mysql v of
        None \<Rightarrow> []
      | Some x \<Rightarrow> (case as_text s x of None \<Rightarrow> [] | Some t \<Rightarrow> t))"

definition new_row :: "store \<Rightarrow> booking_values \<Rightarrow> row" where
  "new_row s v =
     \<lparr>col_id = auto_increment s,
      col_name = column_text s (val_name v),
      col_phone_no = column_text s (val_phone_no v),
      col_from_station = column_text s (val_from_station v),
      col_to_station = column_text s (val_to_station v),
      col_travel_date = column_text s (val_travel_date v),
      col_travel_time = column_text s (val_travel_time v),
      col_no_of_passengers = val_no_of_passengers v,
      col_class = column_text s (val_class v),
      col_selected_seats = Some (val_selected_seats v),
      col_created_at = now s\<rparr>"

text \<open>
  Whether the INSERT is accepted: the driver converts the parameters, the table must
  exist, no NOT NULL column may receive NULL, and the server must not refuse it.
\<close>

definition insert_failure :: "store \<Rightarrow> booking_values \<Rightarrow> failure option" where
  "insert_failure s v =
     (if list_ex (\<lambda>kv. to_mysql (snd kv) = None) (text_params v) then Some Parameter_not_convertible
      else if tbl s = None then Some No_such_table
      else (case find (\<lambda>kv. to_mysql (snd kv) = Some SqlNull) (text_params v) of
              Some kv \<Rightarrow> Some (Column_cannot_be_null (fst kv))
            | None \<Rightarrow>
                if refuses s (Insert_booking v) then Some (Refused (Insert_booking v)) else None))"

text \<open>
  \<^verbatim>\<open>cursor.execute(sql, values)\<close> for the INSERT, then \<^verbatim>\<open>conn.commit()\<close>. The row
  takes the next id and the current timestamp. The driver does not commit by itself, so
  the row reaches the table at the commit; the id is used up either way.
\<close>

definition execute_insert :: "store \<Rightarrow> booking_values \<Rightarrow> (exn + row) \<times> store" where
  "execute_insert s v =
     (let s1 = emit (Executing (Insert_booking v)) s
      in case insert_failure s v of
           Some f \<Rightarrow> (Inl (driver_error s f), s1)
         | None \<Rightarrow> (Inr (new_row s v), s1\<lparr>auto_increment := auto_increment s + 1\<rparr>))"

definition commit_insert :: "store \<Rightarrow> row \<Rightarrow> (exn + unit) \<times> store" where
  "commit_insert s r =
     (case commit s of
        (Inl e, s1) \<Rightarrow> (Inl e, s1)
      | (Inr u, s1) \<Rightarrow> (Inr u, s1\<lparr>tbl := Some (case tbl s of None \<Rightarrow> [r] | Some rows \<Rightarrow> rows @ [r])\<rparr>))"

text \<open>
  \<^verbatim>\<open>CREATE TABLE IF NOT EXISTS bookings\<close>: creates the empty table when there is none
  and leaves an existing one alone. The server commits a CREATE TABLE by itself.
\<close>

definition execute_create :: "store \<Rightarrow> (exn + unit) \<times> store" where
  "execute_create s =
     (let s1 = emit (Executing Create_table_if_not_exists) s
      in if refuses s Create_table_if_not_exists
         then (Inl (driver_error s (Refused Create_table_if_not_exists)), s1)
         else (case tbl s of
                 None \<Rightarrow> (Inr (), s1\<lparr>tbl := Some [], auto_increment := 1\<rparr>)
               | Some rows \<Rightarrow> (Inr (), s1)))"

text \<open>
  \<^verbatim>\<open>SELECT * FROM bookings ORDER BY created_at DESC\<close>: every row, later timestamps
  first; between two rows of one timestamp the server's \<open>tie_break\<close> decides.
\<close>

definition goes_before :: "(row \<Rightarrow> row \<Rightarrow> bool) \<Rightarrow> row \<Rightarrow> row \<Rightarrow> bool" where
  "goes_before tie a b =
     (col_created_at b < col_created_at a \<or> (col_created_at a = col_created_at b \<and> tie a b))"

fun place :: "(row \<Rightarrow> row \<Rightarrow> bool) \<Rightarrow> row \<Rightarrow> row list \<Rightarrow> row list" where
  "place tie r [] = [r]"
| "place tie r (x # xs) = (if goes_before tie r x then r # x # xs else x # place tie r xs)"

definition order_by_created_at_desc :: "(row \<Rightarrow> row \<Rightarrow> bool) \<Rightarrow> row list \<Rightarrow> row list" where
  "order_by_created_at_desc tie rows = foldr (place tie) rows []"

definition select_failure :: "store \<Rightarrow> failure option" where
  "select_failure s =
     (if tbl s = None then Some No_such_table
      else if refuses s Select_order_by_created_at_desc
      then Some (Refused Select_order_by_created_at_desc)
      else None)"

definition execute_select :: "store \<Rightarrow> (exn + row list) \<times> store" where
  "execute_select s =
     (let s1 = emit (Executing Select_order_by_created_at_desc) s
      in case select_failure s of
           Some f \<Rightarrow> (Inl (driver_error s f), s1)
         | None \<Rightarrow>
             (Inr (order_by_created_at_desc (tie_break s) (case tbl s of None \<Rightarrow> [] | Some rows \<Rightarrow> rows)),
              s1))"

section \<open>The handlers\<close>

text \<open>
  What a handler gives \<^verbatim>\<open>jsonify\<close>: request values, the \<^verbatim>\<open>datetime\<close> of a
  \<^verbatim>\<open>created_at\<close> column, lists and dicts of these. A response is such a body with its
  HTTP status. A handler either returns or lets an exception propagate to the framework.
\<close>

datatype pyval =
    J json
  | Datetime nat
  | List "pyval list"
  | Dict "(string \<times> pyval) list"

type_synonym response = "pyval \<times> nat"

datatype 'a exit = Return 'a | Raise exn

text \<open>The driver error an \<^verbatim>\<open>except mysql.connector.Error as err\<close> clause catches, as \<^verbatim>\<open>str(err)\<close>.\<close>

fun caught :: "'a exit \<Rightarrow> string option" where
  "caught (Raise (DriverError m)) = Some m"
| "caught x = None"

text \<open>
  The \<^verbatim>\<open>finally\<close> block of the handlers: the cursor is closed when the name
  \<^verbatim>\<open>cursor\<close> was bound, the connection when \<^verbatim>\<open>conn\<close> was bound to a connection.
\<close>

definition finally_block :: "bool \<Rightarrow> bool \<Rightarrow> store \<Rightarrow> store" where
  "finally_block cursor_bound conn_held s =
     (let s1 = (if cursor_bound then emit Cursor_closed s else s)
      in if conn_held then emit Connection_closed s1 else s1)"

definition get_db_connection :: "store \<Rightarrow> (exn + connection option) \<times> store" where
  "get_db_connection s =
     (let s1 = emit Connecting s
      in case link s of
           Up \<Rightarrow> (Inr (Some Connection), emit Connection_opened s1)
         | Down \<Rightarrow>
             (Inr None, emit (Printed (Database_connection_failed (wording s Connect_failed))) s1)
         | Broken m \<Rightarrow> (Inl (OtherError m), s1))"

subsection \<open>create_table\<close>

definition create_table_try :: "store \<Rightarrow> (unit exit \<times> bool \<times> bool) \<times> store" where
  "create_table_try s =
     (case get_db_connection s of
        (Inl e, s1) \<Rightarrow> ((Raise e, False, False), s1)
      | (Inr None, s1) \<Rightarrow> ((Raise AttributeError, False, False), s1)
      | (Inr (Some conn), s1) \<Rightarrow>
          (case cursor s1 of
             (Inl e, s2) \<Rightarrow> ((Raise e, False, True), s2)
           | (Inr u, s2) \<Rightarrow>
               (case execute_create s2 of
                  (Inl e, s3) \<Rightarrow> ((Raise e, True, True), s3)
                | (Inr u, s3) \<Rightarrow>
                    (case commit s3 of
                       (Inl e, s4) \<Rightarrow> ((Raise e, True, True), s4)
                     | (Inr u, s4) \<Rightarrow>
                         ((Return (), True, True), emit (Printed Table_created_or_exists) s4)))))"

definition create_table :: "store \<Rightarrow> unit exit \<times> store" where
  "create_table s =
     (case create_table_try s of
        ((x, cursor_bound, conn_held), s1) \<Rightarrow>
          (case caught x of
             Some m \<Rightarrow>
               (Return (), finally_block cursor_bound conn_held (emit (Printed (Error_creating_table m)) s1))
           | None \<Rightarrow> (x, finally_block cursor_bound conn_held s1)))"

subsection \<open>POST /book\<close>

definition required_fields :: "string list" where
  "required_fields =
     [''name'', ''phone_no'', ''from_station'', ''to_station'',
      ''travel_date'', ''travel_time'', ''no_of_passengers'', ''class'', ''selected_seats'']"

text \<open>The loop over \<^verbatim>\<open>required_fields\<close>: the first field that is not in \<^verbatim>\<open>data\<close>.\<close>

fun first_missing :: "json \<Rightarrow> string list \<Rightarrow> exn + string option" where
  "first_missing data [] = Inr None"
| "first_missing data (field # rest) =
     (case contains data field of
        Inl e \<Rightarrow> Inl e
      | Inr present \<Rightarrow> if present then first_missing data rest else Inr (Some field))"

fun and_then :: "exn + 'a \<Rightarrow> ('a \<Rightarrow> exn + 'b) \<Rightarrow> exn + 'b" where
  "and_then (Inl e) f = Inl e"
| "and_then (Inr x) f = f x"

text \<open>
  \<^verbatim>\<open>seats_str = ",".join(map(str, data["selected_seats"])) if data["selected_seats"] else ""\<close>,
  as a function of the value \<^verbatim>\<open>data["selected_seats"]\<close>.
\<close>

definition seats_str :: "json \<Rightarrow> exn + string" where
  "seats_str seats =
     (if truthy seats
      then and_then (iter seats) (\<lambda>xs. Inr (join '','' (map py_str xs)))
      else Inr [])"

text \<open>The assignments to \<^verbatim>\<open>seats_str\<close> and \<^verbatim>\<open>values\<close>, in the order Python evaluates them.\<close>

definition build_values :: "json \<Rightarrow> exn + booking_values" where
  "build_values data =
     and_then (subscript data ''selected_seats'') (\<lambda>seats.
     and_then (seats_str seats) (\<lambda>seats_text.
     and_then (subscript data ''name'') (\<lambda>name.
     and_then (subscript data ''phone_no'') (\<lambda>phone_no.
     and_then (subscript data ''from_station'') (\<lambda>from_station.
     and_then (subscript data ''to_station'') (\<lambda>to_station.
     and_then (subscript data ''travel_date'') (\<lambda>travel_date.
     and_then (subscript data ''travel_time'') (\<lambda>travel_time.
     and_then (subscript data ''no_of_passengers'') (\<lambda>passengers.
     and_then (py_int passengers) (\<lambda>n.
     and_then (subscript data ''class'') (\<lambda>cls.
       Inr \<lparr>val_name = name, val_phone_no = phone_no, val_from_station = from_station,
            val_to_station = to_station, val_travel_date = travel_date,
            val_travel_time = travel_time, val_no_of_passengers = n, val_class = cls,
            val_selected_seats = seats_text\<rparr>)))))))))))"

definition error_body :: "string \<Rightarrow> pyval" where
  "error_body msg = Dict [(''error'', J (JStr msg))]"

definition booking_added :: "int \<Rightarrow> json \<Rightarrow> pyval" where
  "booking_added booking_id data =
     Dict [(''message'', J (JStr ''Booking added successfully!'')),
           (''booking_id'', J (JInt booking_id)),
           (''data'', J data)]"

definition add_booking_try :: "store \<Rightarrow> json \<Rightarrow> (response exit \<times> bool \<times> bool) \<times> store" where
  "add_booking_try s data =
     (case get_db_connection s of
        (Inl e, s1) \<Rightarrow> ((Raise e, False, False), s1)
      | (Inr None, s1) \<Rightarrow>
          ((Return (error_body ''Database connection failed'', 500), False, False), s1)
      | (Inr (Some conn), s1) \<Rightarrow>
          (case cursor s1 of
             (Inl e, s2) \<Rightarrow> ((Raise e, False, True), s2)
           | (Inr u, s2) \<Rightarrow>
               (case build_values data of
                  Inl e \<Rightarrow> ((Raise e, True, True), s2)
                | Inr v \<Rightarrow>
                    (case execute_insert s2 v of
                       (Inl e, s3) \<Rightarrow> ((Raise e, True, True), s3)
                     | (Inr r, s3) \<Rightarrow>
                         (case commit_insert s3 r of
                            (Inl e, s4) \<Rightarrow> ((Raise e, True, True), s4)
                          | (Inr u, s4) \<Rightarrow>
                              ((Return (booking_added (col_id r) data, 201), True, True), s4))))))"

definition add_booking :: "store \<Rightarrow> json \<Rightarrow> response exit \<times> store" where
  "add_booking s0 data =
     (let s = emit (Printed (Received_booking_data data)) s0
      in case first_missing data required_fields of
           Inl e \<Rightarrow> (Raise e, s)
         | Inr (Some field) \<Rightarrow> (Return (error_body (''Missing field: '' @ field), 400), s)
         | Inr None \<Rightarrow>
             (case add_booking_try s data of
                ((x, cursor_bound, conn_held), s1) \<Rightarrow>
                  (case caught x of
                     Some m \<Rightarrow>
                       (Return (error_body (''Database error: '' @ m), 500),
                        finally_block cursor_bound conn_held (emit (Printed (Database_Error m)) s1))
                   | None \<Rightarrow> (x, finally_block cursor_bound conn_held s1))))"

subsection \<open>GET /bookings\<close>

text \<open>
  \<^verbatim>\<open>booking['selected_seats'].split(',') if booking['selected_seats'] else []\<close>:
  NULL and the empty text give the empty list.
\<close>

definition split_seats :: "string option \<Rightarrow> string list" where
  "split_seats seats =
     (case seats of
        None \<Rightarrow> []
      | Some text \<Rightarrow> if text \<noteq> [] then split (CHR '','') text else [])"

text \<open>A fetched row as a dict (\<^verbatim>\<open>dictionary=True\<close>), after the loop has replaced \<^verbatim>\<open>selected_seats\<close>.\<close>

definition listed :: "row \<Rightarrow> pyval" where
  "listed r =
     Dict [(''id'', J (JInt (col_id r))),
           (''name'', J (JStr (col_name r))),
           (''phone_no'', J (JStr (col_phone_no r))),
           (''from_station'', J (JStr (col_from_station r))),
           (''to_station'', J (JStr (col_to_station r))),
           (''travel_date'', J (JStr (col_travel_date r))),
           (''travel_time'', J (JStr (col_travel_time r))),
           (''no_of_passengers'', J (JInt (col_no_of_passengers r))),
           (''class'', J (JStr (col_class r))),
           (''selected_seats'', J (JArr (map JStr (split_seats (col_selected_seats r))))),
           (''created_at'', Datetime (col_created_at r))]"

definition get_bookings_try :: "store \<Rightarrow> (response exit \<times> bool \<times> bool) \<times> store" where
  "get_bookings_try s =
     (case get_db_connection s of
        (Inl e, s1) \<Rightarrow> ((Raise e, False, False), s1)
      | (Inr None, s1) \<Rightarrow>
          ((Return (error_body ''Database connection failed'', 500), False, False), s1)
      | (Inr (Some conn), s1) \<Rightarrow>
          (case cursor s1 of
             (Inl e, s2) \<Rightarrow> ((Raise e, False, True), s2)
           | (Inr u, s2) \<Rightarrow>
               (case execute_select s2 of
                  (Inl e, s3) \<Rightarrow> ((Raise e, True, True), s3)
                | (Inr bookings, s3) \<Rightarrow>
                    ((Return (Dict [(''bookings'', List (map listed bookings))], 200), True, True),
                     s3))))"

definition get_bookings :: "store \<Rightarrow> response exit \<times> store" where
  "get_bookings s =
     (case get_bookings_try s of
        ((x, cursor_bound, conn_held), s1) \<Rightarrow>
          (case caught x of
             Some m \<Rightarrow>
               (Return (error_body (''Database error: '' @ m), 500),
                finally_block cursor_bound conn_held s1)
           | None \<Rightarrow> (x, finally_block cursor_bound conn_held s1)))"

subsection \<open>GET /health\<close>

text \<open>\<^verbatim>\<open>str(e)\<close> of the exception that \<^verbatim>\<open>except Exception as e\<close> catches.\<close>

fun exn_str :: "exn \<Rightarrow> string" where
  "exn_str (DriverError m) = m"
| "exn_str (OtherError m) = m"
| "exn_str e = []"

definition health_check :: "store \<Rightarrow> response exit \<times> store" where
  "health_check s =
     (case get_db_connection s of
        (Inl e, s1) \<Rightarrow>
          (Return (Dict [(''status'', J (JStr ''unhealthy'')), (''error'', J (JStr (exn_str e)))], 500),
           finally_block False False s1)
      | (Inr None, s1) \<Rightarrow>
          (Return (Dict [(''status'', J (JStr ''unhealthy'')),
                         (''database'', J (JStr ''disconnected''))], 500),
           finally_block False False s1)
      | (Inr (Some conn), s1) \<Rightarrow>
          (if live s1
           then (Return (Dict [(''status'', J (JStr ''healthy'')),
                               (''database'', J (JStr ''connected''))], 200),
                 finally_block False True s1)
           else (Return (Dict [(''status'', J (JStr ''unhealthy'')),
                               (''database'', J (JStr ''disconnected''))], 500),
                 finally_block False True s1)))"

section \<open>Resources held\<close>

text \<open>
  Connections and cursors a trace leaves open: each opening counts one up, each closing
  one down.
\<close>

fun connection_change :: "event \<Rightarrow> int" where
  "connection_change Connection_opened = 1"
| "connection_change Connection_closed = - 1"
| "connection_change e = 0"

fun cursor_change :: "event \<Rightarrow> int" where
  "cursor_change Cursor_opened = 1"
| "cursor_change Cursor_closed = - 1"
| "cursor_change e = 0"

definition open_connections :: "store \<Rightarrow> int" where
  "open_connections s = sum_list (map connection_change (trace s))"

definition open_cursors :: "store \<Rightarrow> int" where
  "open_cursors s = sum_list (map cursor_change (trace s))"

section \<open>Example inputs\<close>

text \<open>The request of the specification's example, and a reachable store with an empty table.\<close>

definition example_booking :: json where
  "example_booking =
     JObj [(''name'', JStr ''A''), (''phone_no'', JStr ''123''), (''from_station'', JStr ''X''),
           (''to_station'', JStr ''Y''), (''travel_date'', JStr ''2024-01-01''),
           (''travel_time'', JStr ''10:00''), (''no_of_passengers'', JInt 2),
           (''class'', JStr ''AC''), (''selected_seats'', JArr [JStr ''A1'', JStr ''A2''])]"



fun example_wording :: "failure \<Rightarrow> string" where
  "example_wording Connect_failed = ''2003: Cannot connect to MySQL server''"
| "example_wording Connection_not_available = ''MySQL Connection not available.''"
| "example_wording Parameter_not_convertible = ''Failed processing format-parameters''"
| "example_wording No_such_table = ''1146 (42S02): Table bookings does not exist''"
| "example_wording (Column_cannot_be_null c) = ''1048 (23000): Column '' @ c @ '' cannot be null''"
| "example_wording (Refused st) = ''1142 (42000): command denied''"

definition example_store :: store where
  "example_store =
     \<lparr>link = Up, live = True, refuses = (\<lambda>st. False), wording = example_wording,
      tbl = Some [], auto_increment = 1, now = 100, tie_break = (\<lambda>a b. False),
      double_text = float_repr, trace = []\<rparr>"

section \<open>Joining and splitting the seats\<close>

lemma split_acc_no_sep:
  "c \<notin> set x \<Longrightarrow> split_acc c acc x = [rev acc @ x]"
  by (induction x arbitrary: acc) auto

lemma split_acc_sep:
  "c \<notin> set x \<Longrightarrow> split_acc c acc (x @ c # rest) = (rev acc @ x) # split_acc c [] rest"
  by (induction x arbitrary: acc) auto

lemma split_join:
  "list_all (\<lambda>x. c \<notin> set x) xs \<Longrightarrow> xs \<noteq> [] \<Longrightarrow> split c (join [c] xs) = xs"
proof (induction "[c]" xs rule: join.induct)
  case 1
  then show ?case by simp
next
  case (2 x)
  then show ?case by (simp add: split_def split_acc_no_sep)
next
  case (3 x y ys)
  then show ?case using split_acc_sep [of c x "[]" "join [c] (y # ys)"]
    by (simp add: split_def)
qed

lemma join_empty:
  "join sep xs = [] \<Longrightarrow> sep \<noteq> [] \<Longrightarrow> xs = [] \<or> xs = [[]]"
  by (induction sep xs rule: join.induct) auto

lemma map_py_str: "map (py_str \<circ> JStr) xs = xs"
  by (induction xs) auto

text \<open>
  Claim C2, as amended. For every non-empty sequence of seat strings without a comma,
  other than the sequence holding just the empty string, \<^verbatim>\<open>add_booking\<close> serialises it
  to the comma-joined text and the split of \<^verbatim>\<open>get_bookings\<close> gives the sequence back.
  The empty sequence is serialised to the empty text, which comes back as the empty
  sequence and not as a sequence holding the empty string.
\<close>

theorem seats_round_trip:
  "(list_all (\<lambda>x. CHR '','' \<notin> set x) seats \<and> seats \<noteq> [] \<and> seats \<noteq> [[]] \<longrightarrow>
      seats_str (JArr (map JStr seats)) = Inr (join '','' seats) \<and>
      split_seats (Some (join '','' seats)) = seats) \<and>
   seats_str (JArr []) = Inr [] \<and> split_seats (Some []) = [] \<and> split_seats (Some []) \<noteq> [[]]"
proof -
  have "split_seats (Some (join '','' seats)) = seats"
    if "list_all (\<lambda>x. CHR '','' \<notin> set x) seats" "seats \<noteq> []" "seats \<noteq> [[]]"
  proof -
    have "join '','' seats \<noteq> []" using join_empty [of "'',''" seats] that by auto
    then show ?thesis using split_join [of "CHR '',''" seats] that by (simp add: split_seats_def)
  qed
  moreover have "seats_str (JArr (map JStr seats)) = Inr (join '','' seats)" if "seats \<noteq> []"
    using that by (simp add: seats_str_def map_py_str)
  ultimately show ?thesis by (simp add: seats_str_def split_seats_def)
qed

theorem seats_round_trip_witness:
  "list_all (\<lambda>x. CHR '','' \<notin> set x) [''A1'', ''A2''] \<and>
   seats_str (JArr (map JStr [''A1'', ''A2''])) = Inr ''A1,A2'' \<and>
   split_seats (Some ''A1,A2'') = [''A1'', ''A2'']"
  using seats_round_trip [of "[''A1'', ''A2'']"] by simp

text \<open>
  The sequence holding just the empty string is non-empty and has no comma; it is
  serialised to the empty text, and \<^verbatim>\<open>get_bookings\<close> reads the empty text as the empty
  sequence.
\<close>

theorem single_empty_seat_counterexample:
  "list_all (\<lambda>x. CHR '','' \<notin> set x) [[]] \<and> [[]] \<noteq> ([] :: string list) \<and>
   seats_str (JArr (map JStr [[]])) = Inr [] \<and> split_seats (Some []) \<noteq> [[]]"
  by (simp add: seats_str_def split_seats_def)

section \<open>Validation of the request\<close>

lemma first_missing_dict:
  "first_missing (JObj kvs) fs = Inr (find (\<lambda>f. f \<notin> fst ` set kvs) fs)"
  by (induction fs) auto



lemma find_some: "\<not> list_all (\<lambda>f. \<not> P f) fs \<Longrightarrow> \<exists>f. find P fs = Some f"
  by (induction fs) auto

lemma add_booking_missing:
  "first_missing data required_fields = Inr (Some field) \<Longrightarrow>
   add_booking s data =
     (Return (error_body (''Missing field: '' @ field), 400),
      emit (Printed (Received_booking_data data)) s)"
  by (simp add: add_booking_def)



lemma find_absent:
  "\<not> list_all (\<lambda>f. f \<in> A) fs \<Longrightarrow> \<exists>f \<in> set fs. f \<notin> A \<and> find (\<lambda>f. f \<notin> A) fs = Some f"
  by (induction fs) auto



text \<open>
  Claim C10. For a request object lacking a required key, \<^verbatim>\<open>add_booking\<close> answers 400
  having done nothing to the store: the state afterwards is the state before with only
  the printed line "Received booking data" added to the trace, so no connection was
  attempted, no statement ran, and the table is unchanged.
\<close>

theorem validation_failure_has_no_effect:
  "\<not> list_all (\<lambda>f. f \<in> fst ` set kvs) required_fields \<Longrightarrow>
   (\<exists>field. fst (add_booking s (JObj kvs)) = Return (error_body (''Missing field: '' @ field), 400)) \<and>
   snd (add_booking s (JObj kvs)) = s\<lparr>trace := trace s @ [Printed (Received_booking_data (JObj kvs))]\<rparr> \<and>
   tbl (snd (add_booking s (JObj kvs))) = tbl s"
proof -
  assume "\<not> list_all (\<lambda>f. f \<in> fst ` set kvs) required_fields"
  then obtain f where "find (\<lambda>f. f \<notin> fst ` set kvs) required_fields = Some f"
    using find_absent [of "fst ` set kvs" required_fields] by auto
  then have "add_booking s (JObj kvs) =
     (Return (error_body (''Missing field: '' @ f), 400), emit (Printed (Received_booking_data (JObj kvs))) s)"
    by (simp add: add_booking_missing first_missing_dict)
  then show ?thesis by (auto simp: emit_def)
qed

theorem validation_failure_has_no_effect_witness:
  "snd (add_booking example_store (JObj [(''name'', JStr ''A'')])) =
     example_store\<lparr>trace := [Printed (Received_booking_data (JObj [(''name'', JStr ''A'')]))]\<rparr> \<and>
   tbl (snd (add_booking example_store (JObj [(''name'', JStr ''A'')]))) = Some []"
  using validation_failure_has_no_effect [of "[(''name'', JStr ''A'')]" example_store]
  by (simp add: required_fields_def example_store_def)

section \<open>Release of connections and cursors\<close>

lemma the_connection [simp]: "(c :: connection) = Connection"
  by (cases c) simp

lemma open_emit:
  "open_connections (emit e s) = open_connections s + connection_change e"
  "open_cursors (emit e s) = open_cursors s + cursor_change e"
  by (simp_all add: open_connections_def open_cursors_def emit_def)

lemma open_update:
  "open_connections (s\<lparr>tbl := t\<rparr>) = open_connections s"
  "open_cursors (s\<lparr>tbl := t\<rparr>) = open_cursors s"
  "open_connections (s\<lparr>auto_increment := n\<rparr>) = open_connections s"
  "open_cursors (s\<lparr>auto_increment := n\<rparr>) = open_cursors s"
  by (simp_all add: open_connections_def open_cursors_def)

lemma open_finally:
  "open_connections (finally_block cb ch s) = open_connections s - (if ch then 1 else 0)"
  "open_cursors (finally_block cb ch s) = open_cursors s - (if cb then 1 else 0)"
  by (simp_all add: finally_block_def open_emit Let_def)

lemma open_get_db_connection:
  "get_db_connection s = (r, s1) \<Longrightarrow>
   open_connections s1 = open_connections s + (if r = Inr (Some Connection) then 1 else 0) \<and>
   open_cursors s1 = open_cursors s"
  by (auto simp: get_db_connection_def open_emit Let_def split: link.splits)

lemma open_cursor:
  "cursor s = (r, s1) \<Longrightarrow>
   open_connections s1 = open_connections s \<and>
   open_cursors s1 = open_cursors s + (if r = Inr () then 1 else 0)"
  by (auto simp: cursor_def open_emit split: if_splits)

lemma open_commit:
  "commit s = (r, s1) \<Longrightarrow> open_connections s1 = open_connections s \<and> open_cursors s1 = open_cursors s"
  by (auto simp: commit_def open_emit Let_def split: if_splits)

lemma open_execute_insert:
  "execute_insert s v = (r, s1) \<Longrightarrow> open_connections s1 = open_connections s \<and> open_cursors s1 = open_cursors s"
  by (auto simp: execute_insert_def open_emit open_update Let_def split: option.splits)

lemma open_commit_insert:
  "commit_insert s v = (r, s1) \<Longrightarrow> open_connections s1 = open_connections s \<and> open_cursors s1 = open_cursors s"
  by (auto simp: commit_insert_def open_update split: prod.splits sum.splits dest: open_commit)

lemma open_execute_create:
  "execute_create s = (r, s1) \<Longrightarrow> open_connections s1 = open_connections s \<and> open_cursors s1 = open_cursors s"
  by (auto simp: execute_create_def open_emit open_update Let_def split: option.splits if_splits)

lemma open_execute_select:
  "execute_select s = (r, s1) \<Longrightarrow> open_connections s1 = open_connections s \<and> open_cursors s1 = open_cursors s"
  by (auto simp: execute_select_def open_emit Let_def split: option.splits)

lemma open_add_booking_try:
  "add_booking_try s data = ((x, cb, ch), s1) \<Longrightarrow>
   open_connections s1 = open_connections s + (if ch then 1 else 0) \<and>
   open_cursors s1 = open_cursors s + (if cb then 1 else 0)"
  unfolding add_booking_try_def
  by (auto split: prod.splits sum.splits option.splits
      dest!: open_get_db_connection open_cursor open_execute_insert open_commit_insert)

lemma open_get_bookings_try:
  "get_bookings_try s = ((x, cb, ch), s1) \<Longrightarrow>
   open_connections s1 = open_connections s + (if ch then 1 else 0) \<and>
   open_cursors s1 = open_cursors s + (if cb then 1 else 0)"
  unfolding get_bookings_try_def
  by (auto split: prod.splits sum.splits option.splits
      dest!: open_get_db_connection open_cursor open_execute_select)

lemma open_create_table_try:
  "create_table_try s = ((x, cb, ch), s1) \<Longrightarrow>
   open_connections s1 = open_connections s + (if ch then 1 else 0) \<and>
   open_cursors s1 = open_cursors s + (if cb then 1 else 0)"
  unfolding create_table_try_def
  by (auto simp: open_emit split: prod.splits sum.splits option.splits
      dest!: open_get_db_connection open_cursor open_execute_create open_commit)

lemma open_add_booking:
  "open_connections (snd (add_booking s data)) = open_connections s \<and>
   open_cursors (snd (add_booking s data)) = open_cursors s"
proof -
  let ?s = "emit (Printed (Received_booking_data data)) s"
  obtain x cb ch s1 where t: "add_booking_try ?s data = ((x, cb, ch), s1)"
    by (metis prod_cases3 surj_pair)
  from open_add_booking_try [OF t] show ?thesis
    by (auto simp: add_booking_def t open_emit open_finally Let_def split: sum.splits option.splits)
qed

lemma open_get_bookings:
  "open_connections (snd (get_bookings s)) = open_connections s \<and>
   open_cursors (snd (get_bookings s)) = open_cursors s"
proof -
  obtain x cb ch s1 where t: "get_bookings_try s = ((x, cb, ch), s1)"
    by (metis prod_cases3 surj_pair)
  from open_get_bookings_try [OF t] show ?thesis
    by (auto simp: get_bookings_def t open_finally split: option.splits)
qed

lemma open_health_check:
  "open_connections (snd (health_check s)) = open_connections s \<and>
   open_cursors (snd (health_check s)) = open_cursors s"
proof -
  obtain r s1 where g: "get_db_connection s = (r, s1)" by (cases "get_db_connection s")
  from open_get_db_connection [OF g] show ?thesis
    by (auto simp: health_check_def g open_finally split: sum.splits option.splits)
qed

lemma open_create_table:
  "open_connections (snd (create_table s)) = open_connections s \<and>
   open_cursors (snd (create_table s)) = open_cursors s"
proof -
  obtain x cb ch s1 where t: "create_table_try s = ((x, cb, ch), s1)"
    by (metis prod_cases3 surj_pair)
  from open_create_table_try [OF t] show ?thesis
    by (auto simp: create_table_def t open_emit open_finally split: option.splits)
qed

text \<open>
  Claim C9. Whatever the store does and whatever the request holds, each of
  \<^verbatim>\<open>add_booking\<close>, \<^verbatim>\<open>get_bookings\<close> and \<^verbatim>\<open>health_check\<close> leaves as many connections
  and as many cursors open as it found: on a response, on a handled driver error and on
  an exception that propagates alike, what the handler opened it has closed.
\<close>

theorem handlers_release_resources:
  "open_connections (snd (add_booking s data)) = open_connections s \<and>
   open_cursors (snd (add_booking s data)) = open_cursors s \<and>
   open_connections (snd (get_bookings s)) = open_connections s \<and>
   open_cursors (snd (get_bookings s)) = open_cursors s \<and>
   open_connections (snd (health_check s)) = open_connections s \<and>
   open_cursors (snd (health_check s)) = open_cursors s"
  using open_add_booking [of s data] open_get_bookings [of s] open_health_check [of s] by simp

theorem handlers_release_resources_witness:
  "open_connections (snd (add_booking example_store example_booking)) = 0 \<and>
   open_cursors (snd (add_booking example_store example_booking)) = 0 \<and>
   open_connections (snd (get_bookings example_store)) = 0 \<and>
   open_cursors (snd (get_bookings example_store)) = 0"
  using handlers_release_resources [of example_store example_booking]
  by (simp add: example_store_def open_connections_def open_cursors_def)

lemma emit_fields [simp]:
  "link (emit e s) = link s" "live (emit e s) = live s" "refuses (emit e s) = refuses s"
  "wording (emit e s) = wording s" "tbl (emit e s) = tbl s"
  "auto_increment (emit e s) = auto_increment s" "now (emit e s) = now s"
  "tie_break (emit e s) = tie_break s" "double_text (emit e s) = double_text s"
  "trace (emit e s) = trace s @ [e]"
  by (simp_all add: emit_def)

text \<open>
  Claim C8. \<^verbatim>\<open>health_check\<close> answers 200 healthy/connected when the connection is
  established and live; 500 unhealthy/disconnected when connecting fails with a driver
  error or the connection is not live; 500 unhealthy with the message when connecting
  raises anything else. These cases cover every store and exclude each other. A
  connection that was opened is closed again, and none is left open in any case.
\<close>

theorem health_check_outcomes:
  "(link s = Up \<and> live s \<longrightarrow>
      fst (health_check s) =
        Return (Dict [(''status'', J (JStr ''healthy'')), (''database'', J (JStr ''connected''))], 200)) \<and>
   (link s = Down \<or> (link s = Up \<and> \<not> live s) \<longrightarrow>
      fst (health_check s) =
        Return (Dict [(''status'', J (JStr ''unhealthy'')), (''database'', J (JStr ''disconnected''))], 500)) \<and>
   (link s = Broken m \<longrightarrow>
      fst (health_check s) =
        Return (Dict [(''status'', J (JStr ''unhealthy'')), (''error'', J (JStr m))], 500)) \<and>
   (link s = Up \<longrightarrow>
      trace (snd (health_check s)) = trace s @ [Connecting, Connection_opened, Connection_closed]) \<and>
   (link s \<noteq> Up \<longrightarrow> list_all (\<lambda>e. e \<noteq> Connection_opened) (drop (length (trace s)) (trace (snd (health_check s))))) \<and>
   open_connections (snd (health_check s)) = open_connections s"
  using open_health_check [of s]
  by (cases "link s")
     (simp_all add: health_check_def get_db_connection_def finally_block_def Let_def)

theorem health_check_outcomes_witness:
  "fst (health_check example_store) =
     Return (Dict [(''status'', J (JStr ''healthy'')), (''database'', J (JStr ''connected''))], 200) \<and>
   fst (health_check (example_store\<lparr>link := Down\<rparr>)) =
     Return (Dict [(''status'', J (JStr ''unhealthy'')), (''database'', J (JStr ''disconnected''))], 500) \<and>
   fst (health_check (example_store\<lparr>live := False\<rparr>)) =
     Return (Dict [(''status'', J (JStr ''unhealthy'')), (''database'', J (JStr ''disconnected''))], 500) \<and>
   fst (health_check (example_store\<lparr>link := Broken ''no route''\<rparr>)) =
     Return (Dict [(''status'', J (JStr ''unhealthy'')), (''error'', J (JStr ''no route''))], 500) \<and>
   trace (snd (health_check example_store)) = [Connecting, Connection_opened, Connection_closed] \<and>
   trace (snd (health_check (example_store\<lparr>live := False\<rparr>))) =
     [Connecting, Connection_opened, Connection_closed]"
  using health_check_outcomes [of example_store] health_check_outcomes [of "example_store\<lparr>link := Down\<rparr>"]
    health_check_outcomes [of "example_store\<lparr>live := False\<rparr>"]
    health_check_outcomes [of "example_store\<lparr>link := Broken ''no route''\<rparr>" "''no route''"]
  by (simp add: example_store_def)

section \<open>Responses to store failures\<close>

lemma as_text_emit [simp]: "as_text (emit e s) x = as_text s x"
  by (cases x) simp_all

lemma column_text_emit [simp]: "column_text (emit e s) v = column_text s v"
  by (cases "to_mysql v") (simp_all add: column_text_def)

lemma column_text_str [simp]: "column_text s (JStr t) = t"
  by (simp add: column_text_def)

lemma emit_failures [simp]:
  "insert_failure (emit e s) v = insert_failure s v"
  "select_failure (emit e s) = select_failure s"
  "driver_error (emit e s) f = driver_error s f"
  "new_row (emit e s) v = new_row s v"
  by (simp_all add: insert_failure_def select_failure_def driver_error_def new_row_def)












section \<open>Start-up and the coercion of the passenger count\<close>

text \<open>
  At start-up \<^verbatim>\<open>create_table\<close> runs once. When the connection is established it
  returns whatever happens next: a failing cursor, statement or commit is printed and
  swallowed. The statement creates the table when there is none and leaves an existing
  table as it is, so running it twice gives the table of running it once.
\<close>

lemma create_table_up_returns:
  "link s = Up \<Longrightarrow> fst (create_table s) = Return ()"
  by (auto simp: create_table_def create_table_try_def get_db_connection_def cursor_def
      execute_create_def commit_def driver_error_def Let_def split: option.splits)

lemma create_table_creates:
  "link s = Up \<Longrightarrow> live s \<Longrightarrow> \<not> refuses s Create_table_if_not_exists \<Longrightarrow>
   tbl (snd (create_table s)) = Some (case tbl s of None \<Rightarrow> [] | Some rows \<Rightarrow> rows)"
  by (auto simp: create_table_def create_table_try_def get_db_connection_def cursor_def
      execute_create_def commit_def driver_error_def finally_block_def Let_def emit_def
      split: option.splits)

lemma create_table_fields:
  "link (snd (create_table s)) = link s" "live (snd (create_table s)) = live s"
  "refuses (snd (create_table s)) = refuses s"
  by (auto simp: create_table_def create_table_try_def get_db_connection_def cursor_def
      execute_create_def commit_def driver_error_def finally_block_def Let_def emit_def
      split: option.splits link.splits)

lemma create_table_twice:
  "link s = Up \<Longrightarrow> live s \<Longrightarrow> \<not> refuses s Create_table_if_not_exists \<Longrightarrow>
   tbl (snd (create_table (snd (create_table s)))) = tbl (snd (create_table s))"
  by (simp add: create_table_creates create_table_fields)

lemma create_table_failure_is_logged:
  "link s = Up \<Longrightarrow> \<not> live s \<Longrightarrow>
   create_table s =
     (Return (),
      s\<lparr>trace := trace s @ [Connecting, Connection_opened,
            Printed (Error_creating_table (wording s Connection_not_available)), Connection_closed]\<rparr>)"
  by (simp add: create_table_def create_table_try_def get_db_connection_def cursor_def
      driver_error_def finally_block_def Let_def emit_def)

text \<open>
  Claim C6, at the input where the code departs from it. When connecting fails with a
  driver error, \<^verbatim>\<open>get_db_connection\<close> prints the failure and returns None;
  \<^verbatim>\<open>create_table\<close> then calls \<^verbatim>\<open>conn.cursor()\<close> on None. The AttributeError is not
  a driver error, so the \<^verbatim>\<open>except\<close> clause does not catch it and it leaves
  \<^verbatim>\<open>create_table\<close>: the module-level call raises instead of continuing.
\<close>

theorem create_table_without_connection:
  "link s = Down \<Longrightarrow>
   create_table s =
     (Raise AttributeError,
      s\<lparr>trace := trace s @
         [Connecting, Printed (Database_connection_failed (wording s Connect_failed))]\<rparr>)"
  by (simp add: create_table_def create_table_try_def get_db_connection_def finally_block_def
      Let_def emit_def)

theorem create_table_without_connection_witness:
  "create_table (example_store\<lparr>link := Down\<rparr>) =
     (Raise AttributeError,
      example_store\<lparr>link := Down,
        trace := [Connecting,
                  Printed (Database_connection_failed ''2003: Cannot connect to MySQL server'')]\<rparr>)"
  using create_table_without_connection [of "example_store\<lparr>link := Down\<rparr>"]
  by (simp add: example_store_def)

text \<open>
  \<^verbatim>\<open>int\<close> at some values a request can hold: \<^verbatim>\<open>2.7\<close> and \<^verbatim>\<open>-2.7\<close> are cut to 2 and
  -2, the float of \<^verbatim>\<open>1e999\<close> is an OverflowError, and a str keeps a control character
  that is not white space, so \<^verbatim>\<open>"\x1c7"\<close> is a ValueError while a no-break space and
  a newline around the digits are skipped.
\<close>

lemma int_cuts_a_float:
  "py_int (JFloat (Finite 6079859496950170 (- 51) ''2.7'')) = Inr 2 \<and>
   py_int (JFloat (Finite (- 6079859496950170) (- 51) ''-2.7'')) = Inr (- 2)"
  by (simp add: float_trunc_def)

lemma int_of_a_float_not_finite:
  "py_int (JFloat PosInf) = Inl OverflowError \<and> py_int (JFloat NegInf) = Inl OverflowError \<and>
   py_int (JFloat NaN) = Inl ValueError"
  by simp

lemma int_of_str_white_space:
  "py_int (JStr [CHR 0x1C, CHR ''7'']) = Inl ValueError \<and>
   py_int (JStr [CHR 0xA0, CHR ''7'', CHR 0x0A]) = Inr 7"
  by (simp add: int_of_str_def strip_def is_space_def unsigned_literal_def digit_of_def)










section \<open>The listing\<close>










section \<open>A booking posted and listed\<close>



lemma new_row_id [simp]: "col_id (new_row s v) = auto_increment s"
  by (simp add: new_row_def)

lemma add_booking_accepted:
  assumes "first_missing data required_fields = Inr None" and "build_values data = Inr v"
    and "link s = Up" and "live s" and "insert_failure s v = None" and "\<not> refuses s Commit"
  shows "add_booking s data =
           (Return (booking_added (auto_increment s) data, 201),
            s\<lparr>trace := trace s @
                 [Printed (Received_booking_data data), Connecting, Connection_opened,
                  Cursor_opened, Executing (Insert_booking v), Committing, Cursor_closed,
                  Connection_closed],
               auto_increment := auto_increment s + 1,
               tbl := Some (case tbl s of None \<Rightarrow> [new_row s v] | Some rows \<Rightarrow> rows @ [new_row s v])\<rparr>)"
proof -
  let ?s0 = "emit (Printed (Received_booking_data data)) s"
  have "add_booking_try ?s0 data =
          ((Return (booking_added (auto_increment s) data, 201), True, True),
           s\<lparr>trace := trace s @
                 [Printed (Received_booking_data data), Connecting, Connection_opened,
                  Cursor_opened, Executing (Insert_booking v), Committing],
               auto_increment := auto_increment s + 1,
               tbl := Some (case tbl s of None \<Rightarrow> [new_row s v] | Some rows \<Rightarrow> rows @ [new_row s v])\<rparr>)"
    using assms(2-6)
    by (simp add: add_booking_try_def get_db_connection_def cursor_def execute_insert_def
        commit_insert_def commit_def Let_def)
  then show ?thesis using assms(1)
    by (simp add: add_booking_def finally_block_def Let_def emit_def)
qed

text \<open>
  Timestamps follow the order of insertion as long as the store's clock does: a row
  added when no stored timestamp is ahead of the clock keeps the table's timestamps
  non-decreasing.
\<close>

lemma add_booking_keeps_insertion_order:
  assumes "first_missing data required_fields = Inr None" and "build_values data = Inr v"
    and "link s = Up" and "live s" and "insert_failure s v = None" and "\<not> refuses s Commit"
    and "tbl s = Some rows" and "sorted (map col_created_at rows)"
    and "list_all (\<lambda>r. col_created_at r \<le> now s) rows"
  shows "\<exists>rows'. tbl (snd (add_booking s data)) = Some rows' \<and> sorted (map col_created_at rows') \<and>
           list_all (\<lambda>r. col_created_at r \<le> now s) rows'"
  using assms(7-9)
  by (simp add: add_booking_accepted [OF assms(1-6)] sorted_append new_row_def list_all_iff)





end
